theory Spec2Isabelle
  imports Main "HOL-Library.Sublist"
begin

section \<open>JavaScript values used by the bot\<close>

text \<open>
  Strings are lists of characters. The handlers compare texts with the empty string, copy
  them and put them together, and the masking compares characters for equality, so the
  8-bit characters of HOL stand in for the code units of a JavaScript string.

  A value of type \<open>string | undefined\<close> is a \<open>string option\<close>. It is falsy when it is
  \<open>undefined\<close> or the empty string.
\<close>

definition truthy :: "string option \<Rightarrow> bool" where
  "truthy v = (case v of None \<Rightarrow> False | Some s \<Rightarrow> s \<noteq> [])"

text \<open>\<open>a || b\<close> on two values of type \<open>string | undefined\<close>.\<close>

definition js_or :: "string option \<Rightarrow> string option \<Rightarrow> string option" where
  "js_or a b = (if truthy a then a else b)"

text \<open>
  \<open>String(n)\<close> for the numbers the bot converts: Telegram ids, which are integers.
  \<open>String(undefined)\<close> is the text \<open>undefined\<close>.
\<close>

definition digit_char :: "nat \<Rightarrow> char" where
  "digit_char d = char_of (48 + d)"

fun string_of_nat :: "nat \<Rightarrow> string" where
  "string_of_nat n =
     (if n < 10 then [digit_char n] else string_of_nat (n div 10) @ [digit_char (n mod 10)])"

declare string_of_nat.simps [simp del]

definition string_of_int :: "int \<Rightarrow> string" where
  "string_of_int i = (if i < 0 then CHR ''-'' # string_of_nat (nat (- i)) else string_of_nat (nat i))"

definition js_String :: "int option \<Rightarrow> string" where
  "js_String v = (case v of None \<Rightarrow> ''undefined'' | Some i \<Rightarrow> string_of_int i)"

text \<open>\<open>Array.prototype.join\<close> on an array of strings.\<close>

fun join :: "string \<Rightarrow> string list \<Rightarrow> string" where
  "join sep [] = []"
| "join sep [x] = x"
| "join sep (x # y # ys) = x @ sep @ join sep (y # ys)"

section \<open>Regular expressions built from a string\<close>

text \<open>
  \<open>maskBotToken\<close> builds its two patterns with \<open>new RegExp(source, 'g')\<close>. The model covers
  the patterns made of an end-of-input assertion (\<open>$\<close>) and of characters that stand for
  themselves. Without the \<open>u\<close> flag a brace that opens no \<open>{n}\<close>, \<open>{n,}\<close> or \<open>{n,m}\<close>
  quantifier, and every \<open>}\<close> and \<open>]\<close>, is such a character. A source that uses any other
  piece of pattern syntax is outside the model: \<open>RegExp_new\<close> is \<open>None\<close> there (the engine
  either throws a SyntaxError or builds a matcher that is not a literal one).
\<close>

datatype atom = Lit char | EndAnchor

definition is_digit :: "char \<Rightarrow> bool" where
  "is_digit c = (c \<in> set ''0123456789'')"

fun RegExp_new :: "string \<Rightarrow> atom list option" where
  "RegExp_new [] = Some []"
| "RegExp_new (c # cs) =
     (if c = CHR ''$'' then map_option (Cons EndAnchor) (RegExp_new cs)
      else if c \<in> set [CHR ''^'', CHR 0x5C, CHR ''.'', CHR ''*'', CHR ''+'', CHR ''?'',
                        CHR ''('', CHR '')'', CHR ''['', CHR ''|''] then None
      else if c = CHR ''{'' \<and> (case cs of [] \<Rightarrow> False | d # _ \<Rightarrow> is_digit d) then None
      else map_option (Cons (Lit c)) (RegExp_new cs))"

text \<open>
  Matching the pattern at the start of the remaining input. The result is the number of
  characters the match consumes. There is no alternation and no quantifier, so there is
  nothing to backtrack over.
\<close>

fun match_here :: "atom list \<Rightarrow> string \<Rightarrow> nat option" where
  "match_here [] s = Some 0"
| "match_here (Lit c # r) [] = None"
| "match_here (Lit c # r) (d # s) = (if c = d then map_option Suc (match_here r s) else None)"
| "match_here (EndAnchor # r) s = (if s = [] then match_here r s else None)"

text \<open>
  The replacement text of \<open>String.prototype.replace\<close>: \<open>$$\<close> is a dollar sign, \<open>$&\<close> the
  match, \<open>$`\<close> the text before it and \<open>$'\<close> the text after it. The patterns have no
  capture group, so every other \<open>$\<close> stands for itself.
\<close>

fun getSubstitution :: "string \<Rightarrow> string \<Rightarrow> string \<Rightarrow> string \<Rightarrow> string" where
  "getSubstitution matched before after [] = []"
| "getSubstitution matched before after [c] = [c]"
| "getSubstitution matched before after (c # d # r) =
     (if c = CHR ''$'' \<and> d = CHR ''$'' then CHR ''$'' # getSubstitution matched before after r
      else if c = CHR ''$'' \<and> d = CHR ''&'' then matched @ getSubstitution matched before after r
      else if c = CHR ''$'' \<and> d = CHR 0x60 then before @ getSubstitution matched before after r
      else if c = CHR ''$'' \<and> d = CHR 0x27 then after @ getSubstitution matched before after r
      else c # getSubstitution matched before after (d # r))"

text \<open>
  \<open>text.replace(regexp, template)\<close> with the \<open>g\<close> flag: the matches are found from left to
  right without overlap, and after an empty match the search moves one character on.
  \<open>before\<close> is the input already passed, which \<open>$`\<close> needs.
\<close>

fun replace_from :: "atom list \<Rightarrow> string \<Rightarrow> string \<Rightarrow> string \<Rightarrow> string" where
  "replace_from re template before [] =
     (case match_here re [] of
        None \<Rightarrow> []
      | Some n \<Rightarrow> getSubstitution [] before [] template)"
| "replace_from re template before (c # cs) =
     (case match_here re (c # cs) of
        None \<Rightarrow> c # replace_from re template (before @ [c]) cs
      | Some 0 \<Rightarrow> getSubstitution [] before (c # cs) template
                  @ c # replace_from re template (before @ [c]) cs
      | Some (Suc n) \<Rightarrow> getSubstitution (c # take n cs) before (drop n cs) template
                  @ replace_from re template (before @ c # take n cs) (drop n cs))"

definition replace :: "string \<Rightarrow> atom list \<Rightarrow> string \<Rightarrow> string" where
  "replace s re template = replace_from re template [] s"

section \<open>The bot application\<close>

record BotAppOptions =
  botToken :: string

datatype action = Mask | Unmask

definition placeholder :: string where
  "placeholder = ''${{BOT_TOKEN}}''"

text \<open>
  The characters with a meaning of their own in a pattern, and the tokens free of them.
\<close>

definition syntax_character :: "char \<Rightarrow> bool" where
  "syntax_character c =
     (c \<in> set [CHR ''^'', CHR ''$'', CHR 0x5C, CHR ''.'', CHR ''*'', CHR ''+'', CHR ''?'',
                CHR ''('', CHR '')'', CHR ''['', CHR '']'', CHR ''{'', CHR ''}'', CHR ''|''])"

definition literal_token :: "string \<Rightarrow> bool" where
  "literal_token tok = (tok \<noteq> [] \<and> list_all (\<lambda>c. \<not> syntax_character c) tok)"

text \<open>\<open>BotApp.maskBotToken\<close>.\<close>

definition maskBotToken :: "BotAppOptions \<Rightarrow> string \<Rightarrow> action \<Rightarrow> string option" where
  "maskBotToken options s a =
     (if a = Mask
      then map_option (\<lambda>re. replace s re placeholder) (RegExp_new (botToken options))
      else map_option (\<lambda>re. replace s re (botToken options)) (RegExp_new placeholder))"

subsection \<open>Collaborators\<close>

text \<open>
  The string table \<open>t\<close> of \<open>./languages\<close> is not part of the sources; the handlers take
  it as a parameter.
\<close>

record Languages =
  yourAre :: string
  readingImage :: string
  sorryICannotUnderstand :: string
  sorryICannotUnderstandMessageType :: string

datatype entity_type = Text | Photo

text \<open>The fields a \<open>MessageEntity\<close> is constructed from.\<close>

record MessageEntity =
  payload :: string
  userId :: string
  senderId :: string
  type :: entity_type

record IMessageEntity = MessageEntity +
  order :: "nat option"

text \<open>
  Modelled from the spec: the class \<open>MessageEntity\<close> of \<open>../entities/messages\<close> is not part
  of the sources. A transcript entry has the payload, the user id, the sender id and the
  type it was constructed from, and an optional explicit order: \<open>init(order)\<close> records
  the order, \<open>init()\<close> leaves it absent.
\<close>

definition init :: "MessageEntity \<Rightarrow> nat option \<Rightarrow> IMessageEntity" where
  "init e ord = \<lparr>payload = payload e, userId = userId e, senderId = senderId e,
                 type = type e, order = ord\<rparr>"

text \<open>
  The completion client: \<open>chat(persona, inputs, context)\<close> and
  \<open>chatWithImage(persona, inputs, imageUrl)\<close>, the second with a result of type
  \<open>string | undefined\<close>.
\<close>

record OpenAIClient =
  chat :: "string \<Rightarrow> string list \<Rightarrow> string list \<Rightarrow> string list"
  chatWithImage :: "string \<Rightarrow> string list \<Rightarrow> string \<Rightarrow> string option"

text \<open>
  The part of a grammY context the handlers read: the message, the sender, and the file
  path that \<open>ctx.getFile()\<close> resolves to.
\<close>

record User =
  user_id :: int

record ReplyToMessage =
  reply_text :: "string option"

record Message =
  msg_text :: "string option"
  msg_caption :: "string option"
  msg_photo :: "string list option"
  reply_to_message :: "ReplyToMessage option"

record Context =
  ctx_message :: "Message option"
  ctx_from :: "User option"
  getFile_file_path :: "string option"

text \<open>\<open>ctx.from?.id\<close>.\<close>

definition from_id :: "Context \<Rightarrow> int option" where
  "from_id ctx = map_option user_id (ctx_from ctx)"

text \<open>
  What a handler does to the outside, in the order it does it: replies to the user,
  calls of the platform, of the completion client and of the store, and pauses.
\<close>

datatype event =
    Reply string
  | GetFile
  | Insert IMessageEntity
  | InsertBatch "IMessageEntity list"
  | Chat string "string list" "string list"
  | ChatWithImage string "string list" string
  | Delay nat

text \<open>
  A handler either returns or throws. Collaborators are taken to return; a collaborator
  that throws ends the handler at that call, and this is not modelled. \<open>NotModelled\<close> is
  the outcome of a handler that needs a pattern outside the model: the events up to that
  point are given, what follows is not.
\<close>

datatype error = TypeError

datatype outcome = Returned | Threw error | NotModelled

definition replies :: "event list \<Rightarrow> string list" where
  "replies tr = concat (map (\<lambda>e. case e of Reply s \<Rightarrow> [s] | _ \<Rightarrow> []) tr)"

definition writes :: "event list \<Rightarrow> IMessageEntity list" where
  "writes tr = concat (map (\<lambda>e. case e of Insert m \<Rightarrow> [m] | InsertBatch ms \<Rightarrow> ms | _ \<Rightarrow> []) tr)"

definition chat_calls :: "event list \<Rightarrow> (string \<times> string list \<times> string list) list" where
  "chat_calls tr = concat (map (\<lambda>e. case e of Chat p i c \<Rightarrow> [(p, i, c)] | _ \<Rightarrow> []) tr)"

definition chatWithImage_calls :: "event list \<Rightarrow> (string \<times> string list \<times> string) list" where
  "chatWithImage_calls tr =
     concat (map (\<lambda>e. case e of ChatWithImage p i u \<Rightarrow> [(p, i, u)] | _ \<Rightarrow> []) tr)"

subsection \<open>\<open>TelegramApiClient\<close>\<close>

definition baseUrl :: string where
  "baseUrl = ''https://api.telegram.org''"

definition getFileUrl :: "string \<Rightarrow> string \<Rightarrow> string" where
  "getFileUrl token filePath = baseUrl @ ''/file/bot'' @ token @ ''/'' @ filePath"

subsection \<open>\<open>BotApp\<close>\<close>

record TelegramMessageType =
  replyToMessage :: "string option"
  textMsg :: "string option"
  caption :: "string option"
  photo :: "string option"

text \<open>
  \<open>handlePhoto\<close>. The mask of the photo URL is computed while the photo entry is being
  built, after the caption entry has been written. A missing completion client makes the
  call of \<open>chatWithImage\<close> throw a TypeError.
\<close>

definition handlePhoto ::
  "Languages \<Rightarrow> BotAppOptions \<Rightarrow> Context \<Rightarrow> OpenAIClient option \<Rightarrow> string \<Rightarrow> string option
     \<Rightarrow> event list \<times> outcome" where
  "handlePhoto t options ctx aiClient photoUrl photo_caption =
     (let incomingMessages = (case photo_caption of
                                None \<Rightarrow> []
                              | Some c \<Rightarrow> if c \<noteq> [] then [c] else []);
          ev1 = [Reply (readingImage t @ ''...'')]
                @ (case photo_caption of
                     None \<Rightarrow> []
                   | Some c \<Rightarrow>
                       if c \<noteq> []
                       then [Insert (init \<lparr>payload = c, userId = js_String (from_id ctx),
                                           senderId = js_String (from_id ctx), type = Text\<rparr> None)]
                       else [])
      in case maskBotToken options photoUrl Mask of
           None \<Rightarrow> (ev1, NotModelled)
         | Some masked \<Rightarrow>
             (let ev2 = ev1 @ [Insert (init \<lparr>payload = masked, userId = js_String (from_id ctx),
                                             senderId = js_String (from_id ctx), type = Photo\<rparr> None)]
              in case aiClient of
                   None \<Rightarrow> (ev2, Threw TypeError)
                 | Some ai \<Rightarrow>
                     (let message = chatWithImage ai ''friend'' incomingMessages photoUrl;
                          ev3 = ev2 @ [ChatWithImage ''friend'' incomingMessages photoUrl]
                      in if \<not> truthy message
                         then (ev3 @ [Reply (sorryICannotUnderstand t)], Returned)
                         else (ev3 @ [Reply (case message of Some m \<Rightarrow> m | None \<Rightarrow> []),
                                      Insert (init \<lparr>payload = (case message of Some m \<Rightarrow> m | None \<Rightarrow> []),
                                                    userId = js_String (from_id ctx),
                                                    senderId = js_String (from_id ctx),
                                                    type = Text\<rparr> None)],
                               Returned))))"

text \<open>
  The delivery loop of \<open>handleMessageText\<close>: the events of the loop and the final value
  of \<open>countNoResponse\<close>.
\<close>

fun deliver :: "string list \<Rightarrow> nat \<Rightarrow> event list \<times> nat" where
  "deliver [] countNoResponse = ([], countNoResponse)"
| "deliver (message # rest) countNoResponse =
     (if message = [] then deliver rest (countNoResponse + 1)
      else (case deliver rest countNoResponse of
              (evs, n) \<Rightarrow> (Delay 100 # Reply message # evs, n)))"

text \<open>The constant \<open>previousMessage\<close> of \<open>handleMessageText\<close>.\<close>

definition previousMessage :: "string option \<Rightarrow> string list" where
  "previousMessage replyToMsg =
     (case replyToMsg of
        None \<Rightarrow> []
      | Some r \<Rightarrow> if r \<noteq> [] then [''Previous message: '' @ r] else [])"

text \<open>
  \<open>handleMessageText\<close>. The separator of the join is the two characters of the
  source's \<open>'\\n'\<close>: a backslash and the letter n.
\<close>

definition handleMessageText ::
  "Languages \<Rightarrow> Context \<Rightarrow> OpenAIClient option \<Rightarrow> string option \<Rightarrow> string option
     \<Rightarrow> event list \<times> outcome" where
  "handleMessageText t ctx aiClient incomingMessage replyToMsg =
     (case aiClient of
        None \<Rightarrow> ([Reply (sorryICannotUnderstand t @ '' (aiClient is not available)'')], Returned)
      | Some ai \<Rightarrow>
          (case incomingMessage of
             None \<Rightarrow> ([Reply ''Please send a text message''], Returned)
           | Some im \<Rightarrow>
               if im = [] then ([Reply ''Please send a text message''], Returned)
               else
                 (let messages = chat ai ''friend'' [im] (previousMessage replyToMsg);
                      ev1 = [Chat ''friend'' [im] (previousMessage replyToMsg),
                             Insert (init \<lparr>payload = join [CHR 0x5C, CHR ''n''] messages,
                                           userId = js_String (from_id ctx),
                                           senderId = js_String (Some 0), type = Text\<rparr> None)]
                  in case deliver messages 0 of
                       (evs, countNoResponse) \<Rightarrow>
                         if countNoResponse = length messages
                         then (ev1 @ evs @ [Reply (sorryICannotUnderstand t)], Returned)
                         else (ev1 @ evs, Returned))))"

text \<open>The object literal \<open>messages\<close> that \<open>allMessagesHandler\<close> starts with.\<close>

definition classify :: "Context \<Rightarrow> event list \<times> TelegramMessageType" where
  "classify ctx =
     (let has_photo = (case ctx_message ctx of None \<Rightarrow> False | Some m \<Rightarrow> msg_photo m \<noteq> None)
      in ((if has_photo then [GetFile] else []),
          \<lparr>replyToMessage = Option.bind (ctx_message ctx)
                               (\<lambda>m. Option.bind (reply_to_message m) reply_text),
           textMsg = Option.bind (ctx_message ctx) msg_text,
           caption = Option.bind (ctx_message ctx) msg_caption,
           photo = (if has_photo then getFile_file_path ctx else None)\<rparr>))"

text \<open>\<open>allMessagesHandler\<close>.\<close>

definition allMessagesHandler ::
  "Languages \<Rightarrow> BotAppOptions \<Rightarrow> OpenAIClient option \<Rightarrow> Context \<Rightarrow> event list \<times> outcome" where
  "allMessagesHandler t options aiClient ctx =
     (case classify ctx of
        (ev0, messages) \<Rightarrow>
          if textMsg messages = None \<and> caption messages = None \<and> photo messages = None
          then (ev0 @ [Reply (sorryICannotUnderstandMessageType t)], Returned)
          else
            (let incomingMessage = js_or (textMsg messages) (caption messages)
             in if truthy (photo messages)
                then (case handlePhoto t options ctx aiClient
                             (getFileUrl (botToken options)
                                (case photo messages of Some p \<Rightarrow> p | None \<Rightarrow> []))
                             incomingMessage of
                        (evs, r) \<Rightarrow> (ev0 @ evs, r))
                else if \<not> truthy incomingMessage \<or> from_id ctx = None
                then (ev0 @ [Reply (sorryICannotUnderstand t)], Returned)
                else (case handleMessageText t ctx aiClient incomingMessage (replyToMessage messages) of
                        (evs, r) \<Rightarrow>
                          (ev0 @ Insert (init \<lparr>payload = (case incomingMessage of Some m \<Rightarrow> m | None \<Rightarrow> []),
                                               userId = js_String (from_id ctx),
                                               senderId = js_String (from_id ctx),
                                               type = Text\<rparr> None) # evs, r))))"

text \<open>
  \<open>saveTextMessages\<close>: the \<open>for\<close> loop that builds the rows, then the single
  \<open>insertBatch\<close>.
\<close>

function saveTextMessages_rows ::
  "Context \<Rightarrow> string list \<Rightarrow> int \<Rightarrow> nat \<Rightarrow> IMessageEntity list \<Rightarrow> IMessageEntity list" where
  "saveTextMessages_rows ctx messages sender ord messageRows =
     (if ord < length messages
      then saveTextMessages_rows ctx messages sender (ord + 1)
             (messageRows @ [init \<lparr>payload = messages ! ord, userId = js_String (from_id ctx),
                                    senderId = js_String (Some sender), type = Text\<rparr> (Some ord)])
      else messageRows)"
  by pat_completeness auto
termination
  by (relation "measure (\<lambda>(ctx, messages, sender, ord, messageRows). length messages - ord)") auto

declare saveTextMessages_rows.simps [simp del]

definition saveTextMessages :: "Context \<Rightarrow> string list \<Rightarrow> int \<Rightarrow> event list \<times> outcome" where
  "saveTextMessages ctx messages sender =
     ([InsertBatch (saveTextMessages_rows ctx messages sender 0 [])], Returned)"

section \<open>Sample inputs\<close>

definition sample_t :: Languages where
  "sample_t = \<lparr>yourAre = ''You are'', readingImage = ''Reading image'',
               sorryICannotUnderstand = ''Sorry, I cannot understand'',
               sorryICannotUnderstandMessageType = ''Sorry, I cannot understand the message type''\<rparr>"

definition sample_token :: string where
  "sample_token = ''123456:ABC-DEF1234ghIkl-zyx57W2v1u123ew11''"

definition sample_options :: BotAppOptions where
  "sample_options = \<lparr>botToken = sample_token\<rparr>"

definition sample_url :: string where
  "sample_url =
     ''https://api.telegram.org/file/bot123456:ABC-DEF1234ghIkl-zyx57W2v1u123ew11/photos/file_1.jpg''"

definition sample_masked_url :: string where
  "sample_masked_url = ''https://api.telegram.org/file/bot${{BOT_TOKEN}}/photos/file_1.jpg''"

definition sample_user :: User where
  "sample_user = \<lparr>user_id = 7\<rparr>"

text \<open>A text message that replies to an earlier one.\<close>

definition reply_update :: Context where
  "reply_update =
     \<lparr>ctx_message = Some \<lparr>msg_text = Some ''and red?'', msg_caption = None, msg_photo = None,
                            reply_to_message = Some \<lparr>reply_text = Some ''What is blue?''\<rparr>\<rparr>,
      ctx_from = Some sample_user, getFile_file_path = None\<rparr>"

text \<open>A plain text message.\<close>

definition text_update :: Context where
  "text_update =
     \<lparr>ctx_message = Some \<lparr>msg_text = Some ''hello'', msg_caption = None, msg_photo = None,
                            reply_to_message = None\<rparr>,
      ctx_from = Some sample_user, getFile_file_path = None\<rparr>"

text \<open>A photo with the given caption.\<close>

definition photo_update :: "string option \<Rightarrow> Context" where
  "photo_update c =
     \<lparr>ctx_message = Some \<lparr>msg_text = None, msg_caption = c,
                            msg_photo = Some [''small'', ''large''], reply_to_message = None\<rparr>,
      ctx_from = Some sample_user, getFile_file_path = Some ''photos/file_1.jpg''\<rparr>"

text \<open>A photo with the given text body and the given caption.\<close>

definition captioned_photo_update :: "string option \<Rightarrow> string option \<Rightarrow> Context" where
  "captioned_photo_update tx c =
     \<lparr>ctx_message = Some \<lparr>msg_text = tx, msg_caption = c,
                            msg_photo = Some [''small'', ''large''], reply_to_message = None\<rparr>,
      ctx_from = Some sample_user, getFile_file_path = Some ''photos/file_1.jpg''\<rparr>"

text \<open>A message with neither text nor caption nor photo, such as a sticker.\<close>

definition sticker_update :: Context where
  "sticker_update =
     \<lparr>ctx_message = Some \<lparr>msg_text = None, msg_caption = None, msg_photo = None,
                            reply_to_message = None\<rparr>,
      ctx_from = Some sample_user, getFile_file_path = None\<rparr>"

text \<open>A completion client with fixed answers.\<close>

definition fixed_client :: "string list \<Rightarrow> string option \<Rightarrow> OpenAIClient" where
  "fixed_client outs img = \<lparr>chat = (\<lambda>persona inputs context. outs),
                            chatWithImage = (\<lambda>persona inputs url. img)\<rparr>"

section \<open>Unfolding rules\<close>

lemmas sample_defs = sample_t_def sample_token_def sample_options_def sample_url_def
  sample_masked_url_def sample_user_def reply_update_def text_update_def photo_update_def
  sticker_update_def fixed_client_def

lemmas handler_defs = allMessagesHandler_def classify_def handleMessageText_def handlePhoto_def
  previousMessage_def js_or_def truthy_def from_id_def init_def Let_def

section \<open>Facts about the pattern matcher\<close>

text \<open>The pattern built from the placeholder starts with the end-of-input assertion and
  goes on with a character, so it matches nowhere.\<close>

lemma match_here_placeholder: "match_here (EndAnchor # Lit c # r) s = None"
  by (cases s) simp_all

lemma replace_from_no_match:
  "(\<And>x. match_here re x = None) \<Longrightarrow> replace_from re template before s = s"
  by (induction s arbitrary: before) simp_all

lemma RegExp_new_placeholder:
  "RegExp_new placeholder = Some (EndAnchor # map Lit ''{{BOT_TOKEN}}'')"
  by (simp add: placeholder_def is_digit_def)

lemma maskBotToken_unmask: "maskBotToken options s Unmask = Some s"
  by (simp add: maskBotToken_def RegExp_new_placeholder replace_def replace_from_no_match
      match_here_placeholder)

text \<open>A token without syntax characters is matched letter by letter.\<close>

lemma RegExp_new_literal:
  "list_all (\<lambda>c. \<not> syntax_character c) tok \<Longrightarrow> RegExp_new tok = Some (map Lit tok)"
  by (induction tok) (auto simp: syntax_character_def split: list.splits)

lemma match_here_literal:
  "match_here (map Lit tok) s = (if prefix tok s then Some (length tok) else None)"
  by (induction tok arbitrary: s) (auto simp: prefix_Cons split: list.splits, (case_tac s; simp)+)

lemma getSubstitution_placeholder: "getSubstitution m b a placeholder = placeholder"
  by (simp add: placeholder_def)

lemma replace_from_literal_Nil:
  "tok \<noteq> [] \<Longrightarrow> replace_from (map Lit tok) placeholder before [] = []"
  by (cases tok) simp_all

lemma replace_from_literal_Cons:
  "tok \<noteq> [] \<Longrightarrow> replace_from (map Lit tok) placeholder before (c # cs) =
     (if prefix tok (c # cs)
      then placeholder @ replace_from (map Lit tok) placeholder (before @ c # take (length tok - 1) cs)
             (drop (length tok - 1) cs)
      else c # replace_from (map Lit tok) placeholder (before @ [c]) cs)"
proof -
  assume ne: "tok \<noteq> []"
  then obtain k where k: "length tok = Suc k" by (cases tok) auto
  show ?thesis
  proof (cases "prefix tok (c # cs)")
    case True
    then have m: "match_here (map Lit tok) (c # cs) = Some (Suc k)"
      by (simp add: match_here_literal k)
    show ?thesis using True
      by (simp add: m k getSubstitution_placeholder)
  next
    case False
    then have m: "match_here (map Lit tok) (c # cs) = None"
      by (simp add: match_here_literal)
    show ?thesis using False by (simp add: m)
  qed
qed

lemma maskBotToken_mask_literal:
  "literal_token (botToken options) \<Longrightarrow>
     maskBotToken options s Mask = Some (replace_from (map Lit (botToken options)) placeholder [] s)"
  by (simp add: maskBotToken_def literal_token_def RegExp_new_literal replace_def)

text \<open>What the output of the replacement starts with, the input started with, as long
  as no dollar sign is involved.\<close>

lemma prefix_replace_from:
  assumes "tok \<noteq> []" and "CHR ''$'' \<notin> set t"
  shows "prefix t (replace_from (map Lit tok) placeholder before s) \<Longrightarrow> prefix t s"
  using assms(2)
proof (induction s arbitrary: before t rule: length_induct)
  case (1 s)
  show ?case
  proof (cases s)
    case Nil
    with 1 assms(1) show ?thesis
      by (simp add: replace_from_literal_Nil del: replace_from.simps)
  next
    case (Cons c cs)
    show ?thesis
    proof (cases "prefix tok (c # cs)")
      case True
      with 1(2) Cons assms(1)
      have "prefix t (placeholder @ replace_from (map Lit tok) placeholder
                        (before @ c # take (length tok - 1) cs) (drop (length tok - 1) cs))"
        by (simp add: replace_from_literal_Cons del: replace_from.simps)
      with 1(3) have "t = []" by (cases t) (auto simp: placeholder_def)
      then show ?thesis by simp
    next
      case False
      with 1(2) Cons assms(1)
      have p: "prefix t (c # replace_from (map Lit tok) placeholder (before @ [c]) cs)"
        by (simp add: replace_from_literal_Cons del: replace_from.simps)
      show ?thesis
      proof (cases t)
        case Nil
        then show ?thesis by simp
      next
        case (Cons d t')
        with p have "d = c"
          and "prefix t' (replace_from (map Lit tok) placeholder (before @ [c]) cs)" by auto
        moreover have "CHR ''$'' \<notin> set t'" using 1(3) Cons by simp
        ultimately have "prefix t' cs" using 1(1) \<open>s = c # cs\<close> by auto
        with \<open>d = c\<close> Cons \<open>s = c # cs\<close> show ?thesis by simp
      qed
    qed
  qed
qed

text \<open>The masked text holds no occurrence of the token: one inside a placeholder would
  make the token a part of the placeholder, one across the end of a placeholder would
  hold a closing brace, and one elsewhere would have been replaced.\<close>

lemma masked_has_no_token:
  assumes ne: "tok \<noteq> []" and nd: "CHR ''$'' \<notin> set tok" and nb: "CHR ''}'' \<notin> set tok"
    and np: "\<not> sublist tok placeholder"
  shows "\<not> sublist tok (replace_from (map Lit tok) placeholder before s)"
proof (induction s arbitrary: before rule: length_induct)
  case (1 s)
  show ?case
  proof (cases s)
    case Nil
    with ne show ?thesis by (simp add: replace_from_literal_Nil del: replace_from.simps)
  next
    case (Cons c cs)
    show ?thesis
    proof (cases "prefix tok (c # cs)")
      case True
      define rest where "rest = replace_from (map Lit tok) placeholder
          (before @ c # take (length tok - 1) cs) (drop (length tok - 1) cs)"
      have out: "replace_from (map Lit tok) placeholder before s = placeholder @ rest"
        using True Cons ne by (simp add: replace_from_literal_Cons rest_def del: replace_from.simps)
      have ih: "\<not> sublist tok rest"
        unfolding rest_def using 1 Cons by simp
      have "\<not> sublist tok (placeholder @ rest)"
      proof
        assume "sublist tok (placeholder @ rest)"
        then consider "sublist tok placeholder" | "sublist tok rest"
          | xs1 xs2 where "tok = xs1 @ xs2" "suffix xs1 placeholder" "prefix xs2 rest"
          by (auto simp: sublist_append)
        then show False
        proof cases
          case 1
          with np show False by simp
        next
          case 2
          with ih show False by simp
        next
          case 3
          show False
          proof (cases "xs1 = []")
            case True
            with 3 have "prefix tok rest" by simp
            with ih show False by auto
          next
            case False
            from 3(2) obtain zs where "placeholder = zs @ xs1"
              by (auto simp: suffix_def)
            with False have "last xs1 = last placeholder" by (metis last_appendR)
            then have "last xs1 = CHR ''}''" by (simp add: placeholder_def)
            with False 3(1) nb show False
              by (metis last_in_set Un_iff set_append)
          qed
        qed
      qed
      with out show ?thesis by simp
    next
      case False
      have out: "replace_from (map Lit tok) placeholder before s
                   = c # replace_from (map Lit tok) placeholder (before @ [c]) cs"
        using False Cons ne by (simp add: replace_from_literal_Cons del: replace_from.simps)
      have "\<not> prefix tok (replace_from (map Lit tok) placeholder before s)"
        using prefix_replace_from [OF ne nd] False Cons by blast
      moreover have "\<not> sublist tok (replace_from (map Lit tok) placeholder (before @ [c]) cs)"
        using 1 Cons by simp
      ultimately show ?thesis
        unfolding out by (simp add: sublist_Cons_right)
    qed
  qed
qed

lemma replace_from_without_token:
  assumes ne: "tok \<noteq> []"
  shows "\<not> sublist tok s \<Longrightarrow> replace_from (map Lit tok) placeholder before s = s"
proof (induction s arbitrary: before)
  case Nil
  with ne show ?case by (simp add: replace_from_literal_Nil del: replace_from.simps)
next
  case (Cons c cs)
  from Cons.prems have "\<not> prefix tok (c # cs)" and "\<not> sublist tok cs"
    by (auto simp: sublist_Cons_right)
  with Cons.IH ne show ?case
    by (simp add: replace_from_literal_Cons del: replace_from.simps)
qed

lemma sample_mask: "maskBotToken sample_options sample_url Mask = Some sample_masked_url"
  by code_simp

lemma sample_getFileUrl: "getFileUrl (botToken sample_options) ''photos/file_1.jpg'' = sample_url"
  by (simp add: getFileUrl_def baseUrl_def sample_token_def sample_url_def sample_options_def)

section \<open>Token masking\<close>

text \<open>
  Claim C4: unmask is the inverse of mask, \<open>unmask(mask(s)) = s\<close> for every text \<open>s\<close>.

  The code does not do this. The pattern of the unmask branch is built from the text
  \<open>${{BOT_TOKEN}}\<close>, whose first character is the end-of-input assertion, so it matches
  nowhere and unmask returns its argument. For the URL of a file, which holds the token,
  mask puts the placeholder in and unmask leaves it there.
\<close>

theorem unmask_leaves_placeholder:
  "maskBotToken sample_options sample_url Mask = Some sample_masked_url
   \<and> maskBotToken sample_options sample_masked_url Unmask = Some sample_masked_url
   \<and> sample_masked_url \<noteq> sample_url"
  by code_simp

text \<open>
  Claim C5, as stated: for every text, \<open>mask(unmask(mask(s))) = mask(s)\<close> and the output of
  mask never holds the token. With the token \<open>BOT\<close>, which is a part of the placeholder,
  both fail: the mask of \<open>BOT\<close> is the placeholder, which holds \<open>BOT\<close>, and masking it
  again changes it.
\<close>

theorem mask_token_inside_placeholder:
  "maskBotToken \<lparr>botToken = ''BOT''\<rparr> ''BOT'' Mask = Some ''${{BOT_TOKEN}}''
   \<and> sublist ''BOT'' ''${{BOT_TOKEN}}''
   \<and> maskBotToken \<lparr>botToken = ''BOT''\<rparr> ''${{BOT_TOKEN}}'' Unmask = Some ''${{BOT_TOKEN}}''
   \<and> maskBotToken \<lparr>botToken = ''BOT''\<rparr> ''${{BOT_TOKEN}}'' Mask = Some ''${{${{BOT_TOKEN}}_TOKEN}}''
   \<and> ''${{${{BOT_TOKEN}}_TOKEN}}'' \<noteq> ''${{BOT_TOKEN}}''"
  by code_simp

text \<open>
  Claim C5, amended: when the token is not empty, holds no syntax character of a pattern
  and is not a part of the placeholder, then for every text \<open>s\<close> the mask of \<open>s\<close> is
  defined, \<open>mask(unmask(mask(s))) = mask(s)\<close>, and the mask of \<open>s\<close> holds no occurrence of
  the token.
\<close>

theorem mask_unmask_mask:
  assumes "literal_token (botToken options)" and "\<not> sublist (botToken options) placeholder"
  shows "Option.bind (Option.bind (maskBotToken options s Mask)
                        (\<lambda>m. maskBotToken options m Unmask))
           (\<lambda>u. maskBotToken options u Mask) = maskBotToken options s Mask
         \<and> (\<exists>m. maskBotToken options s Mask = Some m \<and> \<not> sublist (botToken options) m)"
proof -
  let ?tok = "botToken options"
  let ?m = "replace_from (map Lit ?tok) placeholder [] s"
  from assms(1) have ne: "?tok \<noteq> []"
    and nd: "CHR ''$'' \<notin> set ?tok" and nb: "CHR ''}'' \<notin> set ?tok"
    by (auto simp: literal_token_def list_all_iff syntax_character_def)
  have free: "\<not> sublist ?tok ?m"
    by (rule masked_has_no_token [OF ne nd nb assms(2)])
  have "maskBotToken options ?m Mask = Some ?m"
    using replace_from_without_token [OF ne free]
    by (simp add: maskBotToken_mask_literal [OF assms(1)])
  with free show ?thesis
    by (simp add: maskBotToken_mask_literal [OF assms(1)] maskBotToken_unmask)
qed

text \<open>The amended claim C5 at the sample token and the URL of a file.\<close>

theorem mask_unmask_mask_witness:
  "literal_token (botToken sample_options) \<and> \<not> sublist (botToken sample_options) placeholder
   \<and> Option.bind (Option.bind (maskBotToken sample_options sample_url Mask)
                     (\<lambda>m. maskBotToken sample_options m Unmask))
        (\<lambda>u. maskBotToken sample_options u Mask) = maskBotToken sample_options sample_url Mask
   \<and> (\<exists>m. maskBotToken sample_options sample_url Mask = Some m
           \<and> \<not> sublist (botToken sample_options) m)"
proof -
  have h1: "literal_token (botToken sample_options)" by code_simp
  have h2: "\<not> sublist (botToken sample_options) placeholder" by code_simp
  from mask_unmask_mask [OF h1 h2, of sample_url] h1 h2 show ?thesis by blast
qed

section \<open>Facts about the handlers\<close>

lemma js_String_42: "js_String (Some 42) = ''42''" by code_simp
lemma js_String_7: "js_String (Some 7) = ''7''" by code_simp
lemma js_String_0: "js_String (Some 0) = ''0''" by code_simp

lemma classify_events: "classify ctx = (ev0, m) \<Longrightarrow> ev0 = [] \<or> ev0 = [GetFile]"
  by (auto simp: classify_def Let_def split: if_splits)

lemma chat_calls_append: "chat_calls (xs @ ys) = chat_calls xs @ chat_calls ys"
  by (simp add: chat_calls_def)

lemma chat_calls_Nil: "chat_calls [] = []"
  by (simp add: chat_calls_def)

lemma chat_calls_Cons:
  "chat_calls (e # es) = (case e of Chat p i c \<Rightarrow> [(p, i, c)] | _ \<Rightarrow> []) @ chat_calls es"
  by (simp add: chat_calls_def)

lemma replies_append: "replies (xs @ ys) = replies xs @ replies ys"
  by (simp add: replies_def)

lemma replies_Nil: "replies [] = []"
  by (simp add: replies_def)

lemma replies_Cons: "replies (e # es) = (case e of Reply s \<Rightarrow> [s] | _ \<Rightarrow> []) @ replies es"
  by (simp add: replies_def)

lemma writes_append: "writes (xs @ ys) = writes xs @ writes ys"
  by (simp add: writes_def)

lemma writes_Nil: "writes [] = []"
  by (simp add: writes_def)

lemma writes_Cons:
  "writes (e # es) = (case e of Insert m \<Rightarrow> [m] | InsertBatch ms \<Rightarrow> ms | _ \<Rightarrow> []) @ writes es"
  by (simp add: writes_def)

lemma chatWithImage_calls_append:
  "chatWithImage_calls (xs @ ys) = chatWithImage_calls xs @ chatWithImage_calls ys"
  by (simp add: chatWithImage_calls_def)

lemma chatWithImage_calls_Nil: "chatWithImage_calls [] = []"
  by (simp add: chatWithImage_calls_def)

lemma chatWithImage_calls_Cons:
  "chatWithImage_calls (e # es) =
     (case e of ChatWithImage p i u \<Rightarrow> [(p, i, u)] | _ \<Rightarrow> []) @ chatWithImage_calls es"
  by (simp add: chatWithImage_calls_def)

lemma chat_calls_paced: "chat_calls (concat (map (\<lambda>x. [Delay 100, Reply x]) xs)) = []"
  by (induction xs) (simp_all add: chat_calls_def)

lemma replies_paced: "replies (concat (map (\<lambda>x. [Delay 100, Reply x]) xs)) = xs"
  by (induction xs) (simp_all add: replies_def)

lemma writes_paced: "writes (concat (map (\<lambda>x. [Delay 100, Reply x]) xs)) = []"
  by (induction xs) (simp_all add: writes_def)

text \<open>The delivery loop in closed form.\<close>

lemma deliver_eq:
  "deliver ms k = (concat (map (\<lambda>x. [Delay 100, Reply x]) (filter (\<lambda>x. x \<noteq> []) ms)),
                   k + length (filter (\<lambda>x. x = []) ms))"
  by (induction ms arbitrary: k) simp_all

lemma all_empty_iff:
  "length (filter (\<lambda>x. x = []) ms) = length ms \<longleftrightarrow> filter (\<lambda>x. x \<noteq> []) ms = []"
  using sum_length_filter_compl [of "\<lambda>x. x = []" ms] by auto

lemma handleMessageText_trace:
  assumes "im \<noteq> []"
  shows "handleMessageText t ctx (Some ai) (Some im) r =
    (let outs = chat ai ''friend'' [im] (previousMessage r) in
     ([Chat ''friend'' [im] (previousMessage r),
       Insert (init \<lparr>payload = join [CHR 0x5C, CHR ''n''] outs, userId = js_String (from_id ctx),
                      senderId = js_String (Some 0), type = Text\<rparr> None)]
      @ concat (map (\<lambda>x. [Delay 100, Reply x]) (filter (\<lambda>x. x \<noteq> []) outs))
      @ (if filter (\<lambda>x. x \<noteq> []) outs = [] then [Reply (sorryICannotUnderstand t)] else []),
      Returned))"
  using assms by (simp add: handleMessageText_def deliver_eq all_empty_iff Let_def)

text \<open>The way of a text update through \<open>allMessagesHandler\<close>.\<close>

lemma allMessagesHandler_text_branch:
  assumes "classify ctx = (ev0, m)" and "\<not> truthy (photo m)"
    and "js_or (textMsg m) (caption m) = Some im" and "im \<noteq> []" and "from_id ctx = Some uid"
  shows "allMessagesHandler t options aiClient ctx =
     (ev0 @ Insert (init \<lparr>payload = im, userId = js_String (Some uid),
                           senderId = js_String (Some uid), type = Text\<rparr> None)
          # fst (handleMessageText t ctx aiClient (Some im) (replyToMessage m)),
      snd (handleMessageText t ctx aiClient (Some im) (replyToMessage m)))"
proof -
  from assms(3) have "textMsg m \<noteq> None \<or> caption m \<noteq> None"
    by (auto simp: js_or_def truthy_def split: if_splits option.splits)
  then show ?thesis using assms
    by (auto simp: allMessagesHandler_def truthy_def Let_def split: prod.splits)
qed

text \<open>The way of a photo update through \<open>allMessagesHandler\<close>.\<close>

lemma allMessagesHandler_photo_branch:
  assumes "classify ctx = (ev0, m)" and "photo m = Some p" and "p \<noteq> []"
  shows "allMessagesHandler t options aiClient ctx =
     (ev0 @ fst (handlePhoto t options ctx aiClient (getFileUrl (botToken options) p)
                   (js_or (textMsg m) (caption m))),
      snd (handlePhoto t options ctx aiClient (getFileUrl (botToken options) p)
             (js_or (textMsg m) (caption m))))"
  using assms by (simp add: allMessagesHandler_def truthy_def Let_def split: prod.splits)

text \<open>The events of \<open>handlePhoto\<close>, whatever the token and the client are.\<close>

lemma classify_photo_update:
  assumes "ctx_message ctx = Some msg" and "msg_photo msg = Some sizes"
    and "getFile_file_path ctx = Some p"
  shows "classify ctx = ([GetFile],
           \<lparr>replyToMessage = Option.bind (reply_to_message msg) reply_text,
            textMsg = msg_text msg, caption = msg_caption msg, photo = Some p\<rparr>)"
  using assms by (simp add: classify_def)

lemma js_or_inputs:
  "(case js_or tx cp of None \<Rightarrow> [] | Some c \<Rightarrow> if c \<noteq> [] then [c] else []) =
     (case tx of
        Some x \<Rightarrow> if x \<noteq> [] then [x]
                  else (case cp of None \<Rightarrow> [] | Some c \<Rightarrow> if c \<noteq> [] then [c] else [])
      | None \<Rightarrow> (case cp of None \<Rightarrow> [] | Some c \<Rightarrow> if c \<noteq> [] then [c] else []))"
  by (auto simp: js_or_def truthy_def split: option.splits)

lemma handlePhoto_events:
  "fst (handlePhoto t options ctx aiClient url cap) =
     (let inputs = (case cap of None \<Rightarrow> [] | Some c \<Rightarrow> if c \<noteq> [] then [c] else []) in
      Reply (readingImage t @ ''...'')
      # map (\<lambda>c. Insert (init \<lparr>payload = c, userId = js_String (from_id ctx),
                                senderId = js_String (from_id ctx), type = Text\<rparr> None)) inputs
      @ (case maskBotToken options url Mask of
           None \<Rightarrow> []
         | Some masked \<Rightarrow>
             Insert (init \<lparr>payload = masked, userId = js_String (from_id ctx),
                           senderId = js_String (from_id ctx), type = Photo\<rparr> None)
             # (case aiClient of
                  None \<Rightarrow> []
                | Some ai \<Rightarrow>
                    ChatWithImage ''friend'' inputs url
                    # (case chatWithImage ai ''friend'' inputs url of
                         None \<Rightarrow> [Reply (sorryICannotUnderstand t)]
                       | Some x \<Rightarrow>
                           if x = [] then [Reply (sorryICannotUnderstand t)]
                           else [Reply x,
                                 Insert (init \<lparr>payload = x, userId = js_String (from_id ctx),
                                               senderId = js_String (from_id ctx),
                                               type = Text\<rparr> None)]))))"
  by (simp add: handlePhoto_def Let_def truthy_def split: option.splits)

lemma photo_update_classify:
  "classify (photo_update c) = ([GetFile],
      \<lparr>replyToMessage = None, textMsg = None, caption = c, photo = Some ''photos/file_1.jpg''\<rparr>)"
  by (simp add: classify_def photo_update_def)

lemma photo_update_from_id: "from_id (photo_update c) = Some 7"
  by (simp add: from_id_def photo_update_def sample_user_def)

lemma handlePhoto_first_writes:
  assumes "maskBotToken options url Mask = Some masked" and "c \<noteq> []"
  shows "take 2 (writes (fst (handlePhoto t options ctx aiClient url (Some c)))) =
           [init \<lparr>payload = c, userId = js_String (from_id ctx),
                   senderId = js_String (from_id ctx), type = Text\<rparr> None,
            init \<lparr>payload = masked, userId = js_String (from_id ctx),
                   senderId = js_String (from_id ctx), type = Photo\<rparr> None]"
  using assms
  by (simp add: handlePhoto_def Let_def writes_def split: option.splits)

text \<open>The loop of \<open>saveTextMessages\<close> in closed form.\<close>

lemma saveTextMessages_rows_eq:
  "ord \<le> length messages \<Longrightarrow>
     saveTextMessages_rows ctx messages sender ord messageRows =
       messageRows @ map (\<lambda>i. \<lparr>payload = messages ! i, userId = js_String (from_id ctx),
                                 senderId = js_String (Some sender), type = Text, order = Some i\<rparr>)
                         [ord..<length messages]"
proof (induction ctx messages sender ord messageRows rule: saveTextMessages_rows.induct)
  case (1 ctx messages sender ord messageRows)
  show ?case
  proof (cases "ord < length messages")
    case True
    then have "[ord..<length messages] = ord # [Suc ord..<length messages]"
      by (simp add: upt_conv_Cons)
    with True 1 show ?thesis
      by (subst saveTextMessages_rows.simps) (simp add: init_def)
  next
    case False
    with 1(2) show ?thesis
      by (subst saveTextMessages_rows.simps) simp
  qed
qed

section \<open>The text branch\<close>

text \<open>
  Claim C1, as stated: for a text update that replies to a prior message, the context
  list of the completion call is the one-element list holding the prior message's text.
  It is not: for a reply to \<open>What is blue?\<close> the context list holds
  \<open>Previous message: What is blue?\<close>.
\<close>

theorem reply_context_is_prefixed:
  "chat_calls (fst (allMessagesHandler sample_t sample_options (Some (fixed_client [''ok''] None)) reply_update))
     = [(''friend'', [''and red?''], [''Previous message: What is blue?''])]
   \<and> [''Previous message: What is blue?''] \<noteq> [''What is blue?'']"
  by (simp add: handler_defs chat_calls_def sample_defs)

text \<open>
  Claim C1, amended: for every text update (no photo path, a non-empty text or caption,
  a sender id), the completion is called once, with persona \<open>friend\<close>, with the
  incoming text as its only input, and with a context list that is empty when the update
  is no reply or the message replied to has no text or an empty one, and that is
  otherwise the one-element list holding \<open>Previous message: \<close> followed by the text of
  the message replied to.
\<close>

theorem reply_context:
  assumes "classify ctx = (ev0, m)" and "\<not> truthy (photo m)"
    and "js_or (textMsg m) (caption m) = Some im" and "im \<noteq> []" and "from_id ctx = Some uid"
  shows "chat_calls (fst (allMessagesHandler t options (Some ai) ctx)) =
           [(''friend'', [im],
             (case replyToMessage m of
                None \<Rightarrow> []
              | Some r \<Rightarrow> if r = [] then [] else [''Previous message: '' @ r]))]"
proof -
  from classify_events [OF assms(1)] have e: "chat_calls ev0 = []"
    by (auto simp: chat_calls_def)
  have p: "previousMessage (replyToMessage m) =
      (case replyToMessage m of None \<Rightarrow> [] | Some r \<Rightarrow> if r = [] then [] else [''Previous message: '' @ r])"
    by (simp add: previousMessage_def split: option.splits)
  have "chat_calls (fst (handleMessageText t ctx (Some ai) (Some im) (replyToMessage m)))
          = [(''friend'', [im], previousMessage (replyToMessage m))]"
    unfolding handleMessageText_trace [OF assms(4)] Let_def fst_conv chat_calls_append
      chat_calls_paced
    by (simp add: chat_calls_Cons chat_calls_Nil)
  then show ?thesis
    unfolding allMessagesHandler_text_branch [OF assms] fst_conv chat_calls_append e p
    by (simp add: chat_calls_Cons)
qed

text \<open>
  The amended claim C1 at a reply to \<open>What is blue?\<close>.
\<close>

theorem reply_context_witness:
  "classify reply_update = ([], snd (classify reply_update))
   \<and> \<not> truthy (photo (snd (classify reply_update)))
   \<and> js_or (textMsg (snd (classify reply_update))) (caption (snd (classify reply_update)))
       = Some ''and red?''
   \<and> ''and red?'' \<noteq> [] \<and> from_id reply_update = Some 7
   \<and> chat_calls (fst (allMessagesHandler sample_t sample_options (Some (fixed_client [''ok''] None))
                        reply_update))
        = [(''friend'', [''and red?''], [''Previous message: '' @ ''What is blue?''])]"
proof -
  have h1: "classify reply_update = ([], snd (classify reply_update))"
    by (simp add: classify_def sample_defs)
  have h2: "\<not> truthy (photo (snd (classify reply_update)))"
    by (simp add: classify_def truthy_def sample_defs)
  have h3: "js_or (textMsg (snd (classify reply_update))) (caption (snd (classify reply_update)))
              = Some ''and red?''"
    by (simp add: classify_def js_or_def truthy_def sample_defs)
  have h4: "''and red?'' \<noteq> []" by simp
  have h5: "from_id reply_update = Some 7" by (simp add: from_id_def sample_defs)
  have "replyToMessage (snd (classify reply_update)) = Some ''What is blue?''"
    by (simp add: classify_def sample_defs)
  with reply_context [OF h1 h2 h3 h4 h5, of sample_t sample_options "fixed_client [''ok''] None"]
    h1 h2 h3 h4 h5 show ?thesis by simp
qed

text \<open>
  Claim C2: when the completion returns \<open>hi\<close> and \<open>there\<close>, the entry that records the
  response has the payload \<open>hi\<close>, a newline character, \<open>there\<close>, and is written before
  any output is delivered.

  In the code the entry is written before the first reply, but the separator of the
  join is the text \<open>'\\n'\<close> of the source, which is a backslash followed by the letter n
  and not a newline character.
\<close>

theorem joined_response_separator:
  "fst (allMessagesHandler sample_t sample_options (Some (fixed_client [''hi'', ''there''] None)) text_update)
     = [Insert \<lparr>payload = ''hello'', userId = ''7'', senderId = ''7'', type = Text, order = None\<rparr>,
        Chat ''friend'' [''hello''] [],
        Insert \<lparr>payload = ''hi'' @ [CHR 0x5C, CHR ''n''] @ ''there'', userId = ''7'',
                 senderId = ''0'', type = Text, order = None\<rparr>,
        Delay 100, Reply ''hi'', Delay 100, Reply ''there'']
   \<and> ''hi'' @ [CHR 0x5C, CHR ''n''] @ ''there'' \<noteq> ''hi'' @ [CHR 0x0A] @ ''there''"
  by (simp add: handler_defs sample_defs js_String_7 js_String_0)

text \<open>
  Claim C2 at the same update, read off the events above: the update has a text and a
  sender, the payloads written are the incoming text and the joined response, the
  joined response is the third event and the first reply the fifth.
\<close>

theorem joined_response_separator_witness:
  "truthy (js_or (textMsg (snd (classify text_update))) (caption (snd (classify text_update))))
   \<and> from_id text_update = Some 7
   \<and> map payload (writes (fst (allMessagesHandler sample_t sample_options
                                   (Some (fixed_client [''hi'', ''there''] None)) text_update)))
       = [''hello'', ''hi'' @ [CHR 0x5C, CHR ''n''] @ ''there'']
   \<and> replies (fst (allMessagesHandler sample_t sample_options
                      (Some (fixed_client [''hi'', ''there''] None)) text_update))
       = [''hi'', ''there'']
   \<and> take 3 (fst (allMessagesHandler sample_t sample_options
                      (Some (fixed_client [''hi'', ''there''] None)) text_update))
       = [Insert \<lparr>payload = ''hello'', userId = ''7'', senderId = ''7'', type = Text, order = None\<rparr>,
          Chat ''friend'' [''hello''] [],
          Insert \<lparr>payload = ''hi'' @ [CHR 0x5C, CHR ''n''] @ ''there'', userId = ''7'',
                   senderId = ''0'', type = Text, order = None\<rparr>]"
proof -
  have "truthy (js_or (textMsg (snd (classify text_update))) (caption (snd (classify text_update))))"
    by (simp add: classify_def js_or_def truthy_def sample_defs)
  moreover have "from_id text_update = Some 7"
    by (simp add: from_id_def sample_defs)
  ultimately show ?thesis
    using joined_response_separator [THEN conjunct1]
    by (simp add: writes_def replies_def)
qed

text \<open>
  Claim C6: for every text update the delivery loop sends exactly the non-empty outputs
  of the completion, in the order of the list, each after a pause of 100 milliseconds,
  and the notice \<open>sorryICannotUnderstand\<close> is sent after the loop exactly when every
  output is empty. The statement gives all the events of the handler, and the replies
  among them.
\<close>

theorem delivery_of_outputs:
  assumes "classify ctx = (ev0, m)" and "\<not> truthy (photo m)"
    and "js_or (textMsg m) (caption m) = Some im" and "im \<noteq> []" and "from_id ctx = Some uid"
    and "outs = chat ai ''friend'' [im] (previousMessage (replyToMessage m))"
  shows "allMessagesHandler t options (Some ai) ctx =
           (ev0 @ [Insert (init \<lparr>payload = im, userId = js_String (Some uid),
                                  senderId = js_String (Some uid), type = Text\<rparr> None),
                   Chat ''friend'' [im] (previousMessage (replyToMessage m)),
                   Insert (init \<lparr>payload = join [CHR 0x5C, CHR ''n''] outs,
                                  userId = js_String (Some uid),
                                  senderId = js_String (Some 0), type = Text\<rparr> None)]
              @ concat (map (\<lambda>x. [Delay 100, Reply x]) (filter (\<lambda>x. x \<noteq> []) outs))
              @ (if list_all (\<lambda>x. x = []) outs then [Reply (sorryICannotUnderstand t)] else []),
            Returned)
         \<and> replies (fst (allMessagesHandler t options (Some ai) ctx)) =
             filter (\<lambda>x. x \<noteq> []) outs
             @ (if list_all (\<lambda>x. x = []) outs then [sorryICannotUnderstand t] else [])"
proof -
  have a: "list_all (\<lambda>x. x = []) outs \<longleftrightarrow> filter (\<lambda>x. x \<noteq> []) outs = []"
    by (simp add: list_all_iff filter_empty_conv)
  have tr: "allMessagesHandler t options (Some ai) ctx =
           (ev0 @ [Insert (init \<lparr>payload = im, userId = js_String (Some uid),
                                  senderId = js_String (Some uid), type = Text\<rparr> None),
                   Chat ''friend'' [im] (previousMessage (replyToMessage m)),
                   Insert (init \<lparr>payload = join [CHR 0x5C, CHR ''n''] outs,
                                  userId = js_String (Some uid),
                                  senderId = js_String (Some 0), type = Text\<rparr> None)]
              @ concat (map (\<lambda>x. [Delay 100, Reply x]) (filter (\<lambda>x. x \<noteq> []) outs))
              @ (if list_all (\<lambda>x. x = []) outs then [Reply (sorryICannotUnderstand t)] else []),
            Returned)"
    unfolding allMessagesHandler_text_branch [OF assms(1-5)] handleMessageText_trace [OF assms(4)]
      Let_def assms(6) [symmetric] a
    by (simp add: assms(5))
  from classify_events [OF assms(1)] have e: "replies ev0 = []"
    by (auto simp: replies_def)
  have "replies (fst (allMessagesHandler t options (Some ai) ctx)) =
             filter (\<lambda>x. x \<noteq> []) outs
             @ (if list_all (\<lambda>x. x = []) outs then [sorryICannotUnderstand t] else [])"
    unfolding tr fst_conv replies_append replies_paced e
    by (simp add: replies_Cons replies_Nil)
  with tr show ?thesis by simp
qed

text \<open>
  Claim C6 at the two lists of the specification: the outputs \<open>hello\<close>, empty, \<open>world\<close>
  give the two replies \<open>hello\<close> and \<open>world\<close> and no notice; two empty outputs give the
  notice as the only reply.
\<close>

theorem delivery_of_outputs_witness:
  "replies (fst (allMessagesHandler sample_t sample_options
                   (Some (fixed_client [''hello'', '''', ''world''] None)) text_update))
     = [''hello'', ''world'']
   \<and> fst (allMessagesHandler sample_t sample_options
                   (Some (fixed_client [''hello'', '''', ''world''] None)) text_update)
     = [Insert \<lparr>payload = ''hello'', userId = ''7'', senderId = ''7'', type = Text, order = None\<rparr>,
        Chat ''friend'' [''hello''] [],
        Insert \<lparr>payload = ''hello'' @ [CHR 0x5C, CHR ''n''] @ [CHR 0x5C, CHR ''n''] @ ''world'',
                 userId = ''7'', senderId = ''0'', type = Text, order = None\<rparr>,
        Delay 100, Reply ''hello'', Delay 100, Reply ''world'']
   \<and> replies (fst (allMessagesHandler sample_t sample_options
                   (Some (fixed_client ['''', ''''] None)) text_update))
     = [sorryICannotUnderstand sample_t]"
proof -
  have h1: "classify text_update = ([], snd (classify text_update))"
    by (simp add: classify_def sample_defs)
  have h2: "\<not> truthy (photo (snd (classify text_update)))"
    by (simp add: classify_def truthy_def sample_defs)
  have h3: "js_or (textMsg (snd (classify text_update))) (caption (snd (classify text_update)))
              = Some ''hello''"
    by (simp add: classify_def js_or_def truthy_def sample_defs)
  have h4: "''hello'' \<noteq> []" by simp
  have h5: "from_id text_update = Some 7" by (simp add: from_id_def sample_defs)
  have r: "replyToMessage (snd (classify text_update)) = None"
    by (simp add: classify_def sample_defs)
  have o1: "[''hello'', '''', ''world''] = chat (fixed_client [''hello'', '''', ''world''] None)
              ''friend'' [''hello''] (previousMessage (replyToMessage (snd (classify text_update))))"
    by (simp add: fixed_client_def)
  have o2: "['''', ''''] = chat (fixed_client ['''', ''''] None)
              ''friend'' [''hello''] (previousMessage (replyToMessage (snd (classify text_update))))"
    by (simp add: fixed_client_def)
  note a = delivery_of_outputs [OF h1 h2 h3 h4 h5 o1, of sample_t sample_options]
  note b = delivery_of_outputs [OF h1 h2 h3 h4 h5 o2, of sample_t sample_options]
  have "replies (fst (allMessagesHandler sample_t sample_options
                   (Some (fixed_client [''hello'', '''', ''world''] None)) text_update))
          = [''hello'', ''world'']"
    using a [THEN conjunct2] by simp
  moreover have "fst (allMessagesHandler sample_t sample_options
                   (Some (fixed_client [''hello'', '''', ''world''] None)) text_update)
     = [Insert \<lparr>payload = ''hello'', userId = ''7'', senderId = ''7'', type = Text, order = None\<rparr>,
        Chat ''friend'' [''hello''] [],
        Insert \<lparr>payload = ''hello'' @ [CHR 0x5C, CHR ''n''] @ [CHR 0x5C, CHR ''n''] @ ''world'',
                 userId = ''7'', senderId = ''0'', type = Text, order = None\<rparr>,
        Delay 100, Reply ''hello'', Delay 100, Reply ''world'']"
    using a [THEN conjunct1] by (simp add: r previousMessage_def init_def js_String_7 js_String_0)
  moreover have "replies (fst (allMessagesHandler sample_t sample_options
                   (Some (fixed_client ['''', ''''] None)) text_update))
          = [sorryICannotUnderstand sample_t]"
    using b [THEN conjunct2] by simp
  ultimately show ?thesis by blast
qed

section \<open>Updates that cannot be classified\<close>

text \<open>
  Claim C8: for every update in which none of text, caption and photo is present, the
  handler sends exactly one reply, the notice \<open>sorryICannotUnderstandMessageType\<close>,
  writes nothing to the store, and returns.
\<close>

theorem unclassifiable_update:
  assumes "classify ctx = (ev0, m)"
    and "textMsg m = None" and "caption m = None" and "photo m = None"
  shows "replies (fst (allMessagesHandler t options aiClient ctx))
           = [sorryICannotUnderstandMessageType t]
         \<and> writes (fst (allMessagesHandler t options aiClient ctx)) = []
         \<and> snd (allMessagesHandler t options aiClient ctx) = Returned"
proof -
  from classify_events [OF assms(1)] have "replies ev0 = []" and "writes ev0 = []"
    by (auto simp: replies_def writes_def)
  then show ?thesis using assms
    by (simp add: allMessagesHandler_def replies_append writes_append replies_Cons writes_Cons
        replies_Nil writes_Nil)
qed

text \<open>
  Claim C8 at a message without text, caption and photo.
\<close>

theorem unclassifiable_update_witness:
  "classify sticker_update = ([], snd (classify sticker_update))
   \<and> textMsg (snd (classify sticker_update)) = None
   \<and> caption (snd (classify sticker_update)) = None
   \<and> photo (snd (classify sticker_update)) = None
   \<and> replies (fst (allMessagesHandler sample_t sample_options (Some (fixed_client [''ok''] None))
                      sticker_update))
        = [''Sorry, I cannot understand the message type'']
   \<and> writes (fst (allMessagesHandler sample_t sample_options (Some (fixed_client [''ok''] None))
                      sticker_update)) = []
   \<and> snd (allMessagesHandler sample_t sample_options (Some (fixed_client [''ok''] None))
             sticker_update) = Returned"
proof -
  have h1: "classify sticker_update = ([], snd (classify sticker_update))"
    by (simp add: classify_def sample_defs)
  have h2: "textMsg (snd (classify sticker_update)) = None"
    by (simp add: classify_def sample_defs)
  have h3: "caption (snd (classify sticker_update)) = None"
    by (simp add: classify_def sample_defs)
  have h4: "photo (snd (classify sticker_update)) = None"
    by (simp add: classify_def sample_defs)
  from unclassifiable_update [OF h1 h2 h3 h4, of sample_t sample_options
      "Some (fixed_client [''ok''] None)"] h1 h2 h3 h4
  show ?thesis by (simp add: sample_t_def)
qed

section \<open>The photo branch\<close>

text \<open>
  Claim C3: in the photo branch the entry persisted for the generated text has the bot's
  sender id, zero.

  In the code it has the id of the human sender: for a photo sent by user 7 the third
  entry written, the one holding the generated text, has sender id \<open>7\<close>, where the text
  branch writes \<open>String(0)\<close>.
\<close>

theorem photo_response_sender:
  "writes (fst (allMessagesHandler sample_t sample_options (Some (fixed_client [] (Some ''A cat'')))
                  (photo_update (Some ''look''))))
     = [\<lparr>payload = ''look'', userId = ''7'', senderId = ''7'', type = Text, order = None\<rparr>,
        \<lparr>payload = sample_masked_url, userId = ''7'', senderId = ''7'', type = Photo, order = None\<rparr>,
        \<lparr>payload = ''A cat'', userId = ''7'', senderId = ''7'', type = Text, order = None\<rparr>]
   \<and> ''7'' \<noteq> js_String (Some 0)"
proof -
  have c: "classify (photo_update (Some ''look'')) = ([GetFile],
      \<lparr>replyToMessage = None, textMsg = None, caption = Some ''look'',
       photo = Some ''photos/file_1.jpg''\<rparr>)"
    by (simp add: classify_def photo_update_def)
  have f: "from_id (photo_update (Some ''look'')) = Some 7"
    by (simp add: from_id_def photo_update_def sample_user_def)
  show ?thesis
    by (simp add: allMessagesHandler_def c handlePhoto_def sample_getFileUrl sample_mask f js_or_def
        truthy_def init_def writes_def fixed_client_def js_String_7 js_String_0)
qed

text \<open>
  Claim C3 at the same update, read off the entries above: the update has a photo path,
  and the sender ids of the three entries are all the id of the human sender.
\<close>

theorem photo_response_sender_witness:
  "truthy (photo (snd (classify (photo_update (Some ''look'')))))
   \<and> map senderId (writes (fst (allMessagesHandler sample_t sample_options
                                    (Some (fixed_client [] (Some ''A cat'')))
                                    (photo_update (Some ''look'')))))
       = [''7'', ''7'', ''7'']
   \<and> map type (writes (fst (allMessagesHandler sample_t sample_options
                                (Some (fixed_client [] (Some ''A cat'')))
                                (photo_update (Some ''look'')))))
       = [Text, Photo, Text]"
proof -
  have "truthy (photo (snd (classify (photo_update (Some ''look'')))))"
    by (simp add: photo_update_classify truthy_def)
  then show ?thesis
    using photo_response_sender [THEN conjunct1] by simp
qed

text \<open>
  Claim C7, as stated: every photo update that carries a caption leads to two store
  writes for the inbound unit, the caption entry first. A photo whose caption is the
  empty string carries a caption, and the only entry written for it is the photo entry.
\<close>

theorem empty_caption_single_write:
  "caption (snd (classify (photo_update (Some '''')))) = Some ''''
   \<and> writes (fst (allMessagesHandler sample_t sample_options (Some (fixed_client [] None))
                     (photo_update (Some ''''))))
       = [\<lparr>payload = sample_masked_url, userId = ''7'', senderId = ''7'', type = Photo, order = None\<rparr>]"
  by (simp add: allMessagesHandler_def photo_update_classify handlePhoto_def sample_getFileUrl
      sample_mask photo_update_from_id js_or_def truthy_def init_def writes_def fixed_client_def
      js_String_7)

text \<open>
  Claim C7, amended: for every photo update with a non-empty caption, and with a bot
  token whose pattern the mask can be computed with, the first two store writes are a
  text entry and then the photo entry; the text entry holds the value used as the caption
  (the text body when that is present and non-empty, the caption otherwise) and has the
  sender's id as its user id and sender id.
\<close>

theorem caption_before_photo:
  assumes "classify ctx = (ev0, m)" and "photo m = Some p" and "p \<noteq> []"
    and "caption m = Some c" and "c \<noteq> []"
    and "maskBotToken options (getFileUrl (botToken options) p) Mask = Some masked"
  shows "take 2 (writes (fst (allMessagesHandler t options aiClient ctx))) =
           [init \<lparr>payload = (case textMsg m of None \<Rightarrow> c | Some x \<Rightarrow> if x \<noteq> [] then x else c),
                   userId = js_String (from_id ctx), senderId = js_String (from_id ctx),
                   type = Text\<rparr> None,
            init \<lparr>payload = masked, userId = js_String (from_id ctx),
                   senderId = js_String (from_id ctx), type = Photo\<rparr> None]"
proof -
  let ?v = "(case textMsg m of None \<Rightarrow> c | Some x \<Rightarrow> if x \<noteq> [] then x else c)"
  from classify_events [OF assms(1)] have e: "writes ev0 = []"
    by (auto simp: writes_def)
  have j: "js_or (textMsg m) (caption m) = Some ?v" and v: "?v \<noteq> []"
    using assms(4,5) by (auto simp: js_or_def truthy_def split: option.splits)
  show ?thesis
    unfolding allMessagesHandler_photo_branch [OF assms(1-3)] fst_conv writes_append e j
    using handlePhoto_first_writes [OF assms(6) v] by simp
qed

text \<open>
  The amended claim C7 at a photo with the caption \<open>look\<close>.
\<close>

theorem caption_before_photo_witness:
  "take 2 (writes (fst (allMessagesHandler sample_t sample_options (Some (fixed_client [] (Some ''A cat'')))
                          (photo_update (Some ''look'')))))
     = [\<lparr>payload = ''look'', userId = ''7'', senderId = ''7'', type = Text, order = None\<rparr>,
        \<lparr>payload = sample_masked_url, userId = ''7'', senderId = ''7'', type = Photo, order = None\<rparr>]"
proof -
  have h2: "photo \<lparr>replyToMessage = None, textMsg = None, caption = Some ''look'',
                    photo = Some ''photos/file_1.jpg''\<rparr> = Some ''photos/file_1.jpg''" by simp
  have h3: "''photos/file_1.jpg'' \<noteq> []" by simp
  have h4: "caption \<lparr>replyToMessage = None, textMsg = None, caption = Some ''look'',
                      photo = Some ''photos/file_1.jpg''\<rparr> = Some ''look''" by simp
  have h5: "''look'' \<noteq> []" by simp
  have h6: "maskBotToken sample_options (getFileUrl (botToken sample_options) ''photos/file_1.jpg'') Mask
              = Some sample_masked_url"
    by (simp add: sample_getFileUrl sample_mask)
  from caption_before_photo [OF photo_update_classify h2 h3 h4 h5 h6, of sample_t
      "Some (fixed_client [] (Some ''A cat''))"]
  show ?thesis by (simp add: init_def photo_update_from_id js_String_7)
qed

text \<open>
  Claim C10: in the photo branch the value used as the caption is the text body of the
  update when that is present and non-empty, and the caption of the update otherwise.
  For every update with a photo and a non-empty file path, whatever the token and the
  completion client are, the events of the handler are the ones below: a caption entry
  with this value is written before the photo entry exactly when the value is
  non-empty, and every call of the image completion has this value as its only input
  when it is non-empty and no input otherwise.
\<close>

theorem photo_caption_value:
  assumes "ctx_message ctx = Some msg" and "msg_photo msg = Some sizes"
    and "getFile_file_path ctx = Some p" and "p \<noteq> []"
    and "inputs = (case msg_text msg of
                     Some x \<Rightarrow> if x \<noteq> [] then [x]
                               else (case msg_caption msg of
                                       None \<Rightarrow> [] | Some c \<Rightarrow> if c \<noteq> [] then [c] else [])
                   | None \<Rightarrow> (case msg_caption msg of
                               None \<Rightarrow> [] | Some c \<Rightarrow> if c \<noteq> [] then [c] else []))"
    and "url = getFileUrl (botToken options) p"
  shows "fst (allMessagesHandler t options aiClient ctx) =
           [GetFile, Reply (readingImage t @ ''...'')]
           @ map (\<lambda>c. Insert (init \<lparr>payload = c, userId = js_String (from_id ctx),
                                     senderId = js_String (from_id ctx), type = Text\<rparr> None)) inputs
           @ (case maskBotToken options url Mask of
                None \<Rightarrow> []
              | Some masked \<Rightarrow>
                  Insert (init \<lparr>payload = masked, userId = js_String (from_id ctx),
                                senderId = js_String (from_id ctx), type = Photo\<rparr> None)
                  # (case aiClient of
                       None \<Rightarrow> []
                     | Some ai \<Rightarrow>
                         ChatWithImage ''friend'' inputs url
                         # (case chatWithImage ai ''friend'' inputs url of
                              None \<Rightarrow> [Reply (sorryICannotUnderstand t)]
                            | Some x \<Rightarrow>
                                if x = [] then [Reply (sorryICannotUnderstand t)]
                                else [Reply x,
                                      Insert (init \<lparr>payload = x, userId = js_String (from_id ctx),
                                                    senderId = js_String (from_id ctx),
                                                    type = Text\<rparr> None)])))
         \<and> chatWithImage_calls (fst (allMessagesHandler t options aiClient ctx)) =
             (case maskBotToken options url Mask of
                None \<Rightarrow> []
              | Some masked \<Rightarrow>
                  (case aiClient of None \<Rightarrow> [] | Some ai \<Rightarrow> [(''friend'', inputs, url)]))
         \<and> take (length inputs) (writes (fst (allMessagesHandler t options aiClient ctx))) =
             map (\<lambda>c. init \<lparr>payload = c, userId = js_String (from_id ctx),
                               senderId = js_String (from_id ctx), type = Text\<rparr> None) inputs"
proof -
  let ?m = "\<lparr>replyToMessage = Option.bind (reply_to_message msg) reply_text,
            textMsg = msg_text msg, caption = msg_caption msg, photo = Some p\<rparr>"
  have c: "classify ctx = ([GetFile], ?m)"
    by (rule classify_photo_update [OF assms(1-3)])
  have ph: "photo ?m = Some p" by simp
  have i: "(case js_or (textMsg ?m) (caption ?m) of None \<Rightarrow> []
            | Some c \<Rightarrow> if c \<noteq> [] then [c] else []) = inputs"
    unfolding assms(5) by (simp add: js_or_inputs)
  have tr: "fst (allMessagesHandler t options aiClient ctx) =
           [GetFile, Reply (readingImage t @ ''...'')]
           @ map (\<lambda>c. Insert (init \<lparr>payload = c, userId = js_String (from_id ctx),
                                     senderId = js_String (from_id ctx), type = Text\<rparr> None)) inputs
           @ (case maskBotToken options url Mask of
                None \<Rightarrow> []
              | Some masked \<Rightarrow>
                  Insert (init \<lparr>payload = masked, userId = js_String (from_id ctx),
                                senderId = js_String (from_id ctx), type = Photo\<rparr> None)
                  # (case aiClient of
                       None \<Rightarrow> []
                     | Some ai \<Rightarrow>
                         ChatWithImage ''friend'' inputs url
                         # (case chatWithImage ai ''friend'' inputs url of
                              None \<Rightarrow> [Reply (sorryICannotUnderstand t)]
                            | Some x \<Rightarrow>
                                if x = [] then [Reply (sorryICannotUnderstand t)]
                                else [Reply x,
                                      Insert (init \<lparr>payload = x, userId = js_String (from_id ctx),
                                                    senderId = js_String (from_id ctx),
                                                    type = Text\<rparr> None)])))"
    unfolding allMessagesHandler_photo_branch [OF c ph assms(4)] fst_conv handlePhoto_events
      Let_def i assms(6) [symmetric]
    by simp
  have w: "writes (map (\<lambda>c. Insert (f c)) xs) = map f xs" for f xs
    by (induction xs) (simp_all add: writes_def)
  have cc: "chatWithImage_calls (map (\<lambda>c. Insert (f c)) xs) = []" for f xs
    by (induction xs) (simp_all add: chatWithImage_calls_def)
  have calls: "chatWithImage_calls (fst (allMessagesHandler t options aiClient ctx)) =
             (case maskBotToken options url Mask of
                None \<Rightarrow> []
              | Some masked \<Rightarrow>
                  (case aiClient of None \<Rightarrow> [] | Some ai \<Rightarrow> [(''friend'', inputs, url)]))"
    unfolding tr chatWithImage_calls_append cc
    by (simp add: chatWithImage_calls_Cons chatWithImage_calls_Nil split: option.splits)
  have "writes (fst (allMessagesHandler t options aiClient ctx)) =
          map (\<lambda>c. init \<lparr>payload = c, userId = js_String (from_id ctx),
                            senderId = js_String (from_id ctx), type = Text\<rparr> None) inputs
          @ writes (case maskBotToken options url Mask of
                None \<Rightarrow> []
              | Some masked \<Rightarrow>
                  Insert (init \<lparr>payload = masked, userId = js_String (from_id ctx),
                                senderId = js_String (from_id ctx), type = Photo\<rparr> None)
                  # (case aiClient of
                       None \<Rightarrow> []
                     | Some ai \<Rightarrow>
                         ChatWithImage ''friend'' inputs url
                         # (case chatWithImage ai ''friend'' inputs url of
                              None \<Rightarrow> [Reply (sorryICannotUnderstand t)]
                            | Some x \<Rightarrow>
                                if x = [] then [Reply (sorryICannotUnderstand t)]
                                else [Reply x,
                                      Insert (init \<lparr>payload = x, userId = js_String (from_id ctx),
                                                    senderId = js_String (from_id ctx),
                                                    type = Text\<rparr> None)])))"
    unfolding tr writes_append w
    by (simp add: writes_Cons writes_Nil)
  then have "take (length inputs) (writes (fst (allMessagesHandler t options aiClient ctx))) =
             map (\<lambda>c. init \<lparr>payload = c, userId = js_String (from_id ctx),
                               senderId = js_String (from_id ctx), type = Text\<rparr> None) inputs"
    by simp
  with tr calls show ?thesis by blast
qed

text \<open>
  Claim C10 at three photos: with the text \<open>T\<close> and the caption \<open>C\<close> the value is
  \<open>T\<close>; with an empty text and the caption \<open>C\<close> it is \<open>C\<close>; with no text and an empty
  caption the input list of the image completion is empty and no caption entry is
  written.
\<close>

theorem photo_caption_value_witness:
  "chatWithImage_calls (fst (allMessagesHandler sample_t sample_options
       (Some (fixed_client [] (Some ''A cat''))) (captioned_photo_update (Some ''T'') (Some ''C''))))
     = [(''friend'', [''T''], sample_url)]
   \<and> writes (fst (allMessagesHandler sample_t sample_options
       (Some (fixed_client [] (Some ''A cat''))) (captioned_photo_update (Some ''T'') (Some ''C''))))
     = [\<lparr>payload = ''T'', userId = ''7'', senderId = ''7'', type = Text, order = None\<rparr>,
        \<lparr>payload = sample_masked_url, userId = ''7'', senderId = ''7'', type = Photo, order = None\<rparr>,
        \<lparr>payload = ''A cat'', userId = ''7'', senderId = ''7'', type = Text, order = None\<rparr>]
   \<and> chatWithImage_calls (fst (allMessagesHandler sample_t sample_options
       (Some (fixed_client [] (Some ''A cat''))) (captioned_photo_update (Some '''') (Some ''C''))))
     = [(''friend'', [''C''], sample_url)]
   \<and> writes (fst (allMessagesHandler sample_t sample_options
       (Some (fixed_client [] (Some ''A cat''))) (captioned_photo_update (Some '''') (Some ''C''))))
     = [\<lparr>payload = ''C'', userId = ''7'', senderId = ''7'', type = Text, order = None\<rparr>,
        \<lparr>payload = sample_masked_url, userId = ''7'', senderId = ''7'', type = Photo, order = None\<rparr>,
        \<lparr>payload = ''A cat'', userId = ''7'', senderId = ''7'', type = Text, order = None\<rparr>]
   \<and> chatWithImage_calls (fst (allMessagesHandler sample_t sample_options
       (Some (fixed_client [] (Some ''A cat''))) (captioned_photo_update None (Some ''''))))
     = [(''friend'', [], sample_url)]
   \<and> writes (fst (allMessagesHandler sample_t sample_options
       (Some (fixed_client [] (Some ''A cat''))) (captioned_photo_update None (Some ''''))))
     = [\<lparr>payload = sample_masked_url, userId = ''7'', senderId = ''7'', type = Photo, order = None\<rparr>,
        \<lparr>payload = ''A cat'', userId = ''7'', senderId = ''7'', type = Text, order = None\<rparr>]"
proof -
  let ?ai = "Some (fixed_client [] (Some ''A cat''))"
  have m: "ctx_message (captioned_photo_update tx c)
             = Some \<lparr>msg_text = tx, msg_caption = c, msg_photo = Some [''small'', ''large''],
                     reply_to_message = None\<rparr>" for tx c
    by (simp add: captioned_photo_update_def)
  have ph: "msg_photo \<lparr>msg_text = tx, msg_caption = c, msg_photo = Some [''small'', ''large''],
                       reply_to_message = None\<rparr> = Some [''small'', ''large'']" for tx c
    by simp
  have fp: "getFile_file_path (captioned_photo_update tx c) = Some ''photos/file_1.jpg''" for tx c
    by (simp add: captioned_photo_update_def)
  have ne: "''photos/file_1.jpg'' \<noteq> []" by simp
  have u: "sample_url = getFileUrl (botToken sample_options) ''photos/file_1.jpg''"
    by (simp add: sample_getFileUrl)
  have f: "from_id (captioned_photo_update tx c) = Some 7" for tx c
    by (simp add: from_id_def captioned_photo_update_def sample_user_def)
  have i1: "[''T''] = (case msg_text \<lparr>msg_text = Some ''T'', msg_caption = Some ''C'',
                          msg_photo = Some [''small'', ''large''], reply_to_message = None\<rparr> of
                     Some x \<Rightarrow> if x \<noteq> [] then [x]
                               else (case msg_caption \<lparr>msg_text = Some ''T'', msg_caption = Some ''C'',
                                        msg_photo = Some [''small'', ''large''], reply_to_message = None\<rparr> of
                                       None \<Rightarrow> [] | Some c \<Rightarrow> if c \<noteq> [] then [c] else [])
                   | None \<Rightarrow> (case msg_caption \<lparr>msg_text = Some ''T'', msg_caption = Some ''C'',
                                        msg_photo = Some [''small'', ''large''], reply_to_message = None\<rparr> of
                               None \<Rightarrow> [] | Some c \<Rightarrow> if c \<noteq> [] then [c] else []))"
    by simp
  have i2: "[''C''] = (case msg_text \<lparr>msg_text = Some '''', msg_caption = Some ''C'',
                          msg_photo = Some [''small'', ''large''], reply_to_message = None\<rparr> of
                     Some x \<Rightarrow> if x \<noteq> [] then [x]
                               else (case msg_caption \<lparr>msg_text = Some '''', msg_caption = Some ''C'',
                                        msg_photo = Some [''small'', ''large''], reply_to_message = None\<rparr> of
                                       None \<Rightarrow> [] | Some c \<Rightarrow> if c \<noteq> [] then [c] else [])
                   | None \<Rightarrow> (case msg_caption \<lparr>msg_text = Some '''', msg_caption = Some ''C'',
                                        msg_photo = Some [''small'', ''large''], reply_to_message = None\<rparr> of
                               None \<Rightarrow> [] | Some c \<Rightarrow> if c \<noteq> [] then [c] else []))"
    by simp
  have i3: "[] = (case msg_text \<lparr>msg_text = None, msg_caption = Some '''',
                          msg_photo = Some [''small'', ''large''], reply_to_message = None\<rparr> of
                     Some x \<Rightarrow> if x \<noteq> [] then [x]
                               else (case msg_caption \<lparr>msg_text = None, msg_caption = Some '''',
                                        msg_photo = Some [''small'', ''large''], reply_to_message = None\<rparr> of
                                       None \<Rightarrow> [] | Some c \<Rightarrow> if c \<noteq> [] then [c] else [])
                   | None \<Rightarrow> (case msg_caption \<lparr>msg_text = None, msg_caption = Some '''',
                                        msg_photo = Some [''small'', ''large''], reply_to_message = None\<rparr> of
                               None \<Rightarrow> [] | Some c \<Rightarrow> if c \<noteq> [] then [c] else []))"
    by simp
  note a = photo_caption_value [OF m ph fp ne i1 u, of sample_t ?ai, THEN conjunct1]
  note b = photo_caption_value [OF m ph fp ne i2 u, of sample_t ?ai, THEN conjunct1]
  note c = photo_caption_value [OF m ph fp ne i3 u, of sample_t ?ai, THEN conjunct1]
  show ?thesis
    unfolding a b c
    by (simp add: sample_mask fixed_client_def f js_String_7 init_def writes_def
        chatWithImage_calls_def)
qed

section \<open>The batched save\<close>

text \<open>
  Claim C9: for a list of \<open>n\<close> messages and a sender id, \<open>saveTextMessages\<close> builds
  \<open>n\<close> entries, the entry at position \<open>i\<close> with the message at \<open>i\<close> and the order \<open>i\<close>,
  all with the user id of the invoking user and the given sender id, and hands them to
  the store in one call of \<open>insertBatch\<close>. The messages \<open>a\<close>, \<open>b\<close>, \<open>c\<close> for sender 42
  give three entries with the orders 0, 1 and 2.
\<close>

theorem batched_save:
  "saveTextMessages ctx messages sender =
     ([InsertBatch (map (\<lambda>i. \<lparr>payload = messages ! i, userId = js_String (from_id ctx),
                                senderId = js_String (Some sender), type = Text, order = Some i\<rparr>)
                        [0..<length messages])], Returned)
   \<and> saveTextMessages text_update [''a'', ''b'', ''c''] 42 =
     ([InsertBatch [\<lparr>payload = ''a'', userId = ''7'', senderId = ''42'', type = Text, order = Some 0\<rparr>,
                    \<lparr>payload = ''b'', userId = ''7'', senderId = ''42'', type = Text, order = Some 1\<rparr>,
                    \<lparr>payload = ''c'', userId = ''7'', senderId = ''42'', type = Text, order = Some 2\<rparr>]],
      Returned)"
proof -
  have g: "saveTextMessages ctx messages sender =
     ([InsertBatch (map (\<lambda>i. \<lparr>payload = messages ! i, userId = js_String (from_id ctx),
                                senderId = js_String (Some sender), type = Text, order = Some i\<rparr>)
                        [0..<length messages])], Returned)" for ctx messages sender
    by (simp add: saveTextMessages_def saveTextMessages_rows_eq)
  have u: "[0..<3] = [0, 1, 2]" by (simp add: upt_rec)
  have "saveTextMessages text_update [''a'', ''b'', ''c''] 42 =
     ([InsertBatch [\<lparr>payload = ''a'', userId = ''7'', senderId = ''42'', type = Text, order = Some 0\<rparr>,
                    \<lparr>payload = ''b'', userId = ''7'', senderId = ''42'', type = Text, order = Some 1\<rparr>,
                    \<lparr>payload = ''c'', userId = ''7'', senderId = ''42'', type = Text, order = Some 2\<rparr>]],
      Returned)"
    unfolding g by (simp add: u from_id_def text_update_def sample_user_def js_String_7 js_String_42)
  with g show ?thesis by simp
qed

end
